theory Spec2Isabelle
  imports Complex_Main "HOL-Library.Word"
begin

section \<open>Python values\<close>

text \<open>
  A Python \<open>str\<close> is a sequence of Unicode code points: \<open>len\<close> and slicing count code
  points, so a string is modelled as a list of natural numbers. \<open>str\<close> embeds an ASCII
  literal. A byte buffer is a list of 8-bit words.
\<close>

type_synonym pystr = "nat list"
type_synonym bytes = "8 word list"
type_synonym path = string

definition str :: "string \<Rightarrow> pystr" where
  "str s = map of_char s"

text \<open>
  \<open>str.isspace\<close> for one code point, which is what \<open>str.strip()\<close> without an argument
  removes from both ends: the ASCII controls 9 to 13 and 28 to 31, the space, NEL, the
  no-break space and the Unicode space separators.
\<close>

definition is_space :: "nat \<Rightarrow> bool" where
  "is_space c =
     ((9 \<le> c \<and> c \<le> 13) \<or> (28 \<le> c \<and> c \<le> 32) \<or> c = 133 \<or> c = 160 \<or> c = 5760 \<or>
      (8192 \<le> c \<and> c \<le> 8202) \<or> c = 8232 \<or> c = 8233 \<or> c = 8239 \<or> c = 8287 \<or>
      c = 12288)"

definition strip :: "pystr \<Rightarrow> pystr" where
  "strip s = rev (dropWhile is_space (rev (dropWhile is_space s)))"

definition count_non_whitespace :: "pystr \<Rightarrow> nat" where
  "count_non_whitespace s = length (filter (\<lambda>c. \<not> is_space c) s)"

text \<open>\<open>str(n)\<close> for a natural number: its decimal digits.\<close>

fun digits_acc :: "nat \<Rightarrow> pystr \<Rightarrow> pystr" where
  "digits_acc n acc =
     (if n < 10 then (48 + n) # acc else digits_acc (n div 10) ((48 + n mod 10) # acc))"

declare digits_acc.simps [simp del]

definition str_nat :: "nat \<Rightarrow> pystr" where
  "str_nat n = digits_acc n []"

text \<open>The exceptions the modelled code can meet, and \<open>str(e)\<close>.\<close>

datatype exn =
    NameError string
  | KeyError string
  | OSError pystr
  | JSONDecodeError pystr
  | TypeError pystr
  | ZeroDivisionError
  | OverflowError
  | RecursionError
  | LibraryError pystr

fun exn_str :: "exn \<Rightarrow> pystr" where
  "exn_str (NameError n) = str ''name '' @ [39] @ str n @ [39] @ str '' is not defined''"
| "exn_str (KeyError k) = [39] @ str k @ [39]"
| "exn_str (OSError m) = m"
| "exn_str (JSONDecodeError m) = m"
| "exn_str (TypeError m) = m"
| "exn_str ZeroDivisionError = str ''division by zero''"
| "exn_str OverflowError = str ''integer division result too large for a float''"
| "exn_str RecursionError = str ''maximum recursion depth exceeded''"
| "exn_str (LibraryError m) = m"

section \<open>The module's global names and the PDF libraries\<close>

text \<open>
  Lines 7 to 26 of \<open>app.py\<close> are all the imports of the module; the \<open>def\<close>s and the
  one assignment at module level bind the remaining global names. Python resolves a
  global name when the expression is evaluated, and an unbound name raises
  \<open>NameError\<close>.
\<close>

definition module_imports :: "string list" where
  "module_imports =
     [''st'', ''os'', ''tempfile'', ''json'', ''datetime'', ''base64'', ''io'', ''time'',
      ''Groq'', ''go'', ''px'', ''pd'', ''Image'']"

definition module_definitions :: "string list" where
  "module_definitions =
     [''get_groq_client'', ''AVAILABLE_MODELS'', ''extract_text_from_pdf'',
      ''get_file_stats'', ''analyze_with_ai'', ''create_gauge_chart'',
      ''create_radar_chart'', ''create_bar_chart'', ''render_header'', ''render_sidebar'',
      ''main'']"

text \<open>
  The three PDF libraries are not code of this repository. What they answer is a
  parameter: for a file's bytes, either an exception or the pages, and for each page what
  the method the code calls on it returns or raises. A table is a list of rows.
\<close>

type_synonym table = "pystr option list list"

record plumber_page =
  extract_text :: "exn + pystr option"
  extract_tables :: "exn + table list"

record pdf_libs =
  pdfplumber_open :: "bytes \<Rightarrow> exn + plumber_page list"
  fitz_open :: "bytes \<Rightarrow> exn + (exn + pystr) list"
  PdfReader :: "bytes \<Rightarrow> exn + (exn + pystr option) list"

text \<open>
  The global namespace as the three extraction stages see it: each library name is
  either bound to the library or unbound.
\<close>

record py_globals =
  g_pdfplumber :: "(bytes \<Rightarrow> exn + plumber_page list) option"
  g_fitz :: "(bytes \<Rightarrow> exn + (exn + pystr) list) option"
  g_PyPDF2 :: "(bytes \<Rightarrow> exn + (exn + pystr option) list) option"

definition bind :: "string list \<Rightarrow> pdf_libs \<Rightarrow> py_globals" where
  "bind names L =
     \<lparr> g_pdfplumber = (if ''pdfplumber'' \<in> set names then Some (pdfplumber_open L) else None),
       g_fitz = (if ''fitz'' \<in> set names then Some (fitz_open L) else None),
       g_PyPDF2 = (if ''PyPDF2'' \<in> set names then Some (PdfReader L) else None) \<rparr>"

definition app_globals :: "pdf_libs \<Rightarrow> py_globals" where
  "app_globals L = bind (module_imports @ module_definitions) L"

section \<open>The uploaded file, the file system and the temporary file\<close>

record uploaded_file =
  upload_name :: pystr
  getvalue :: bytes

type_synonym fs = "path \<rightharpoonup> bytes"

text \<open>
  What the operating system does during one call: the path
  \<open>tempfile.NamedTemporaryFile\<close> picks, and for each of the three file operations of
  \<open>extract_text_from_pdf\<close> whether it raises \<open>OSError\<close> (with which message).
\<close>

record os_env =
  tmp_path :: path
  create_fault :: "pystr option"
  write_fault :: "pystr option"
  unlink_fault :: "pystr option"

definition open_path :: "fs \<Rightarrow> path \<Rightarrow> exn + bytes" where
  "open_path files p =
     (case files p of None \<Rightarrow> Inl (OSError (str ''No such file or directory''))
      | Some b \<Rightarrow> Inr b)"

section \<open>extract\_text\_from\_pdf\<close>

text \<open>
  Each stage is the body of one \<open>try\<close>: it returns the exception that ended it, if any,
  and the text as far as it had been accumulated (\<open>text +=\<close> rebinds the local before the
  next call can raise). The bare \<open>except: pass\<close> keeps the text and drops the exception.
\<close>

definition truthy :: "pystr option \<Rightarrow> bool" where
  "truthy t = (case t of None \<Rightarrow> False | Some s \<Rightarrow> s \<noteq> [])"

fun plumber_text_loop :: "plumber_page list \<Rightarrow> pystr \<Rightarrow> exn option \<times> pystr" where
  "plumber_text_loop [] text = (None, text)"
| "plumber_text_loop (page # pages) text =
     (case extract_text page of
        Inl e \<Rightarrow> (Some e, text)
      | Inr page_text \<Rightarrow>
          plumber_text_loop pages
            (if truthy page_text then text @ the page_text @ [10, 10] else text))"

fun tables_on_page :: "nat \<Rightarrow> table list \<Rightarrow> pystr list" where
  "tables_on_page i [] = []"
| "tables_on_page i (t # ts) =
     (if t \<noteq> []
      then (str ''Table on page '' @ str_nat (i + 1) @ str '': '' @ str_nat (length t) @
            str '' rows'') # tables_on_page i ts
      else tables_on_page i ts)"

fun plumber_table_loop :: "nat \<Rightarrow> plumber_page list \<Rightarrow> pystr list \<Rightarrow> exn + pystr list" where
  "plumber_table_loop i [] tables_found = Inr tables_found"
| "plumber_table_loop i (page # pages) tables_found =
     (case extract_tables page of
        Inl e \<Rightarrow> Inl e
      | Inr tables \<Rightarrow> plumber_table_loop (i + 1) pages (tables_found @ tables_on_page i tables))"

definition method1 :: "py_globals \<Rightarrow> fs \<Rightarrow> path \<Rightarrow> pystr \<Rightarrow> exn option \<times> pystr" where
  "method1 G files p text =
     (case g_pdfplumber G of
        None \<Rightarrow> (Some (NameError ''pdfplumber''), text)
      | Some plumber_open \<Rightarrow>
          (case open_path files p of
             Inl e \<Rightarrow> (Some e, text)
           | Inr b \<Rightarrow>
               (case plumber_open b of
                  Inl e \<Rightarrow> (Some e, text)
                | Inr pages \<Rightarrow>
                    (case plumber_text_loop pages text of
                       (Some e, text1) \<Rightarrow> (Some e, text1)
                     | (None, text1) \<Rightarrow>
                         (case plumber_table_loop 0 pages [] of
                            Inl e \<Rightarrow> (Some e, text1)
                          | Inr tables_found \<Rightarrow>
                              (None,
                               if tables_found \<noteq> []
                               then text1 @ [10, 10] @ str ''[Detected '' @
                                    str_nat (length tables_found) @
                                    str '' tables in resume]'' @ [10]
                               else text1))))))"

fun fitz_loop :: "(exn + pystr) list \<Rightarrow> pystr \<Rightarrow> exn option \<times> pystr" where
  "fitz_loop [] text = (None, text)"
| "fitz_loop (get_text # pages) text =
     (case get_text of
        Inl e \<Rightarrow> (Some e, text)
      | Inr t \<Rightarrow> fitz_loop pages (text @ t))"

definition method2 :: "py_globals \<Rightarrow> fs \<Rightarrow> path \<Rightarrow> pystr \<Rightarrow> exn option \<times> pystr" where
  "method2 G files p text =
     (case g_fitz G of
        None \<Rightarrow> (Some (NameError ''fitz''), text)
      | Some fopen \<Rightarrow>
          (case open_path files p of
             Inl e \<Rightarrow> (Some e, text)
           | Inr b \<Rightarrow>
               (case fopen b of
                  Inl e \<Rightarrow> (Some e, text)
                | Inr doc \<Rightarrow> fitz_loop doc text)))"

fun pypdf2_loop :: "(exn + pystr option) list \<Rightarrow> pystr \<Rightarrow> exn option \<times> pystr" where
  "pypdf2_loop [] text = (None, text)"
| "pypdf2_loop (page # pages) text =
     (case page of
        Inl e \<Rightarrow> (Some e, text)
      | Inr page_text \<Rightarrow>
          pypdf2_loop pages
            (if truthy page_text then text @ the page_text @ [10, 10] else text))"

definition method3 :: "py_globals \<Rightarrow> uploaded_file \<Rightarrow> pystr \<Rightarrow> exn option \<times> pystr" where
  "method3 G uploaded text =
     (case g_PyPDF2 G of
        None \<Rightarrow> (Some (NameError ''PyPDF2''), text)
      | Some reader \<Rightarrow>
          (case reader (getvalue uploaded) of
             Inl e \<Rightarrow> (Some e, text)
           | Inr pages \<Rightarrow> pypdf2_loop pages text))"

definition no_text_warning :: pystr where
  "no_text_warning =
     [9888, 65039] @
     str '' Could not extract text. Please ensure PDF has selectable text (not scanned image).''"

definition extract_error :: "exn \<Rightarrow> pystr" where
  "extract_error e = str ''Error extracting PDF: '' @ exn_str e"

text \<open>
  The three stages in order, on a staged file. Besides the text the model records which
  stages were entered (the numbers of the \<open>try\<close> blocks the control flow reached).
\<close>

record cascade_run =
  text_after1 :: pystr
  text_after2 :: pystr
  text_after3 :: pystr
  attempted :: "nat list"

definition cascade :: "py_globals \<Rightarrow> fs \<Rightarrow> path \<Rightarrow> uploaded_file \<Rightarrow> cascade_run" where
  "cascade G files p uploaded =
     (let text1 = snd (method1 G files p []);
          try2 = (length (strip text1) < 100);
          text2 = (if try2 then snd (method2 G files p text1) else text1);
          try3 = (length (strip text2) < 100);
          text3 = (if try3 then snd (method3 G uploaded text2) else text2)
      in \<lparr> text_after1 = text1, text_after2 = text2, text_after3 = text3,
           attempted = [1] @ (if try2 then [2] else []) @ (if try3 then [3] else []) \<rparr>)"

text \<open>
  The whole function. It returns a string; the model returns with it the file system it
  leaves behind and, when the cascade was reached, the run of the cascade.
\<close>

record extraction =
  returned :: pystr
  files_after :: fs
  run :: "cascade_run option"

definition extract_text_from_pdf ::
  "py_globals \<Rightarrow> os_env \<Rightarrow> fs \<Rightarrow> uploaded_file \<Rightarrow> extraction" where
  "extract_text_from_pdf G os files uploaded =
     (case create_fault os of
        Some m \<Rightarrow> \<lparr> returned = extract_error (OSError m), files_after = files, run = None \<rparr>
      | None \<Rightarrow>
          (let files1 = files(tmp_path os \<mapsto> []) in
           case write_fault os of
             Some m \<Rightarrow>
               \<lparr> returned = extract_error (OSError m), files_after = files1, run = None \<rparr>
           | None \<Rightarrow>
               (let files2 = files1(tmp_path os \<mapsto> getvalue uploaded);
                    r = cascade G files2 (tmp_path os) uploaded;
                    text = text_after3 r
                in case unlink_fault os of
                     Some m \<Rightarrow>
                       \<lparr> returned = extract_error (OSError m), files_after = files2,
                         run = Some r \<rparr>
                   | None \<Rightarrow>
                       \<lparr> returned =
                           (if length (strip text) > 50 then take 5000 text
                            else no_text_warning),
                         files_after = files2(tmp_path os := None),
                         run = Some r \<rparr>)))"

section \<open>get\_file\_stats\<close>

text \<open>
  \<open>size_mb\<close> is a Python float; dividing an integer below \<open>2^53\<close> by \<open>2^20\<close> is exact in
  binary floating point, so the quotient is modelled as the rational number it is.
\<close>

record file_stats =
  filename :: pystr
  size_mb :: rat
  pages :: nat

definition plumber_page_count :: "py_globals \<Rightarrow> bytes \<Rightarrow> exn + nat" where
  "plumber_page_count G b =
     (case g_pdfplumber G of
        None \<Rightarrow> Inl (NameError ''pdfplumber'')
      | Some plumber_open \<Rightarrow>
          (case plumber_open b of Inl e \<Rightarrow> Inl e | Inr pdf_pages \<Rightarrow> Inr (length pdf_pages)))"

definition fitz_page_count :: "py_globals \<Rightarrow> bytes \<Rightarrow> exn + nat" where
  "fitz_page_count G b =
     (case g_fitz G of
        None \<Rightarrow> Inl (NameError ''fitz'')
      | Some fopen \<Rightarrow> (case fopen b of Inl e \<Rightarrow> Inl e | Inr doc \<Rightarrow> Inr (length doc)))"

definition get_file_stats :: "py_globals \<Rightarrow> uploaded_file \<Rightarrow> file_stats" where
  "get_file_stats G uploaded =
     (let stats = \<lparr> filename = upload_name uploaded,
                     size_mb = of_nat (length (getvalue uploaded)) / (1024 * 1024),
                     pages = 0 \<rparr>
      in case plumber_page_count G (getvalue uploaded) of
           Inr n \<Rightarrow> stats\<lparr> pages := n \<rparr>
         | Inl e1 \<Rightarrow>
             (case fitz_page_count G (getvalue uploaded) of
                Inr n \<Rightarrow> stats\<lparr> pages := n \<rparr>
              | Inl e2 \<Rightarrow> stats))"

section \<open>A two-page resume\<close>

text \<open>
  A concrete upload for the scenarios: the bytes of a PDF, and libraries that read two
  pages of text from exactly these bytes and reject every other buffer.
\<close>

definition jane_text :: pystr where
  "jane_text =
     str ''Jane Doe / Python Developer with eight years of experience in data engineering''"

definition jane_page2 :: pystr where
  "jane_page2 = str ''References on request''"

definition jane_pages_text :: pystr where
  "jane_pages_text = jane_text @ [10, 10] @ jane_page2 @ [10, 10]"

definition jane_pdf :: bytes where
  "jane_pdf = [0x25, 0x50, 0x44, 0x46, 0x2D, 0x31, 0x2E, 0x34]"

definition jane_upload :: uploaded_file where
  "jane_upload = \<lparr> upload_name = str ''jane.pdf'', getvalue = jane_pdf \<rparr>"

definition jane_libs :: pdf_libs where
  "jane_libs =
     \<lparr> pdfplumber_open = (\<lambda>b. if b = jane_pdf
          then Inr [\<lparr> extract_text = Inr (Some jane_text), extract_tables = Inr [] \<rparr>,
                    \<lparr> extract_text = Inr (Some jane_page2), extract_tables = Inr [] \<rparr>]
          else Inl (LibraryError (str ''No /Root object! - Is this really a PDF?''))),
       fitz_open = (\<lambda>b. if b = jane_pdf
          then Inr [Inr jane_text, Inr jane_page2]
          else Inl (LibraryError (str ''Failed to open file''))),
       PdfReader = (\<lambda>b. if b = jane_pdf
          then Inr [Inr (Some jane_text), Inr (Some jane_page2)]
          else Inl (LibraryError (str ''EOF marker not found''))) \<rparr>"

definition quiet_os :: os_env where
  "quiet_os = \<lparr> tmp_path = ''/tmp/tmpk3v9x2.pdf'', create_fault = None, write_fault = None,
                 unlink_fault = None \<rparr>"


text \<open>
  A one-page upload in a two-column layout, for the measure of the guards: the page text has
  28 characters that are not whitespace and 110 characters in all.
\<close>

definition columns_text :: pystr where
  "columns_text =
     str ''Jane Doe                                        Python Developer                                        Berlin''"

definition columns_libs :: pdf_libs where
  "columns_libs =
     \<lparr> pdfplumber_open =
         (\<lambda>b. Inr [\<lparr> extract_text = Inr (Some columns_text), extract_tables = Inr [] \<rparr>]),
       fitz_open = (\<lambda>b. Inr [Inr columns_text]),
       PdfReader = (\<lambda>b. Inr [Inr (Some columns_text)]) \<rparr>"

section \<open>analyze\_with\_ai: the prompts\<close>

text \<open>
  The fixed text of the prompts, line by line as in the source (the lines of a
  triple-quoted literal are joined by newlines; characters outside ASCII are given by code
  point). Each user prompt is an f-string: head, job description, middle, resume, tail.
\<close>

fun join_lines :: "pystr list \<Rightarrow> pystr" where
  "join_lines [] = []"
| "join_lines [l] = l"
| "join_lines (l # ls) = l @ [10] @ join_lines ls"

definition detailed_system :: pystr where
  \<open>detailed_system =
     join_lines
       [str ''You are an expert HR Director with 20+ years experience in tech recruitment.'',
        str ''            You analyze resumes against job descriptions with exceptional detail and accuracy.'',
        str ''            Always provide actionable, specific feedback.'']\<close>

definition detailed_user_head :: pystr where
  \<open>detailed_user_head =
     join_lines
       [str ''# COMPREHENSIVE RESUME ANALYSIS REPORT'',
        [],
        str ''## JOB DESCRIPTION ANALYSIS:'',
        []]\<close>

definition detailed_user_middle :: pystr where
  \<open>detailed_user_middle =
     join_lines
       [[],
        [],
        str ''## RESUME CONTENT:'',
        []]\<close>

definition detailed_user_tail :: pystr where
  \<open>detailed_user_tail =
     join_lines
       [[],
        [],
        str ''## PLEASE PROVIDE:'',
        [],
        str ''### 1. '' @ [127919] @ str '' EXECUTIVE SUMMARY'',
        str ''- Overall Match Score: [0-100]%'',
        str ''- One-line verdict'',
        str ''- Confidence level: High/Medium/Low'',
        [],
        str ''### 2. '' @ [128202] @ str '' QUANTITATIVE ASSESSMENT'',
        str ''**Skills Match:**'',
        str ''- Technical Skills Alignment: [X/10]'',
        str ''- Soft Skills Match: [X/10]'',
        str ''- Tools & Technologies: [X/10]'',
        [],
        str ''**Experience Evaluation:**'',
        str ''- Years of Relevant Experience: [X] vs Required: [Y]'',
        str ''- Role Relevance: [X/10]'',
        str ''- Industry Experience: [X/10]'',
        [],
        str ''### 3. '' @ [9989] @ str '' STRENGTHS IDENTIFIED'',
        str ''[List 5-7 specific strengths with examples from resume]'',
        [],
        str ''### 4. '' @ [9888, 65039] @ str '' AREAS FOR IMPROVEMENT'',
        str ''[List 5-7 specific gaps with actionable solutions]'',
        [],
        str ''### 5. '' @ [128273] @ str '' KEYWORD ANALYSIS'',
        str ''- Top 10 Matching Keywords: [list]'',
        str ''- Top 10 Missing Keywords: [list]'',
        str ''- Keyword Density Score: [X/10]'',
        [],
        str ''### 6. '' @ [128200] @ str '' ATS OPTIMIZATION SCORE: [0-100]'',
        str ''- Formatting: [X/10]'',
        str ''- Readability: [X/10]'',
        str ''- ATS Compliance: [X/10]'',
        [],
        str ''### 7. '' @ [127919] @ str '' HIRING PROBABILITY PREDICTION'',
        str ''- Pass ATS Screening: Yes/No/Maybe'',
        str ''- Likelihood of Interview: High/Medium/Low'',
        str ''- Estimated Shortlist Time: Immediate/1-3 days/1 week+'',
        [],
        str ''### 8. '' @ [128161] @ str '' ACTIONABLE RECOMMENDATIONS'',
        str ''[Top 5 specific actions to improve resume]'',
        [],
        str ''### 9. '' @ [128221] @ str '' COVER LETTER TIPS'',
        str ''[3 key points to highlight in cover letter]'',
        [],
        str ''### 10. '' @ [127919] @ str '' FINAL VERDICT & NEXT STEPS'',
        [],
        str ''Format with emojis, bold headings, and clear bullet points.'']\<close>

definition ats_score_system :: pystr where
  \<open>ats_score_system =
     join_lines
       [str ''You are an ATS (Applicant Tracking System) algorithm expert.'',
        str ''            You analyze resumes strictly like an ATS would.'',
        str ''            Be objective, numerical, and data-driven.'']\<close>

definition ats_score_user_head :: pystr where
  \<open>ats_score_user_head =
     join_lines
       [str ''Generate ONLY a JSON response for ATS analysis:'',
        [],
        str ''JOB DESCRIPTION:'',
        []]\<close>

definition ats_score_user_middle :: pystr where
  \<open>ats_score_user_middle =
     join_lines
       [[],
        [],
        str ''RESUME CONTENT:'',
        []]\<close>

definition ats_score_user_tail :: pystr where
  \<open>ats_score_user_tail =
     join_lines
       [[],
        [],
        str ''Return this EXACT JSON structure:'',
        str ''{'',
        str ''    "overall_score": 0-100,'',
        str ''    "breakdown": {'',
        str ''        "keyword_match": 0-100,'',
        str ''        "experience_match": 0-100,'',
        str ''        "skills_match": 0-100,'',
        str ''        "education_match": 0-100,'',
        str ''        "formatting": 0-100,'',
        str ''        "readability": 0-100'',
        str ''    },'',
        str ''    "prediction": {'',
        str ''        "pass_ats": true/false,'',
        str ''        "interview_probability": "High/Medium/Low",'',
        str ''        "shortlist_time": "Immediate/1-3 days/1 week+"'',
        str ''    },'',
        str ''    "keywords": {'',
        str ''        "matched": ["keyword1", "keyword2", "keyword3", "keyword4", "keyword5"],'',
        str ''        "missing": ["keyword1", "keyword2", "keyword3", "keyword4", "keyword5"],'',
        str ''        "suggested": ["keyword1", "keyword2", "keyword3"]'',
        str ''    },'',
        str ''    "improvements": ['',
        str ''        "Improvement 1",'',
        str ''        "Improvement 2", '',
        str ''        "Improvement 3",'',
        str ''        "Improvement 4",'',
        str ''        "Improvement 5"'',
        str ''    ],'',
        str ''    "ats_optimization_tips": ['',
        str ''        "Tip 1",'',
        str ''        "Tip 2",'',
        str ''        "Tip 3"'',
        str ''    ]'',
        str ''}'']\<close>

definition cover_letter_system :: pystr where
  \<open>cover_letter_system =
     join_lines
       [str ''You are a professional cover letter writer specializing in tech roles.'',
        str ''            Write compelling, personalized cover letters that get interviews.'']\<close>

definition cover_letter_user_head :: pystr where
  \<open>cover_letter_user_head =
     join_lines
       [str ''Write a professional cover letter based on:'',
        [],
        str ''JOB DESCRIPTION:'',
        []]\<close>

definition cover_letter_user_middle :: pystr where
  \<open>cover_letter_user_middle =
     join_lines
       [[],
        [],
        str ''RESUME CONTENT:'',
        []]\<close>

definition cover_letter_user_tail :: pystr where
  \<open>cover_letter_user_tail =
     join_lines
       [[],
        [],
        str ''Format:'',
        str ''1. Professional header with date and contact info'',
        str ''2. Appropriate salutation'',
        str ''3. Strong opening paragraph showing enthusiasm'',
        str ''4. 2-3 body paragraphs matching skills to job requirements'',
        str ''5. Specific examples from resume'',
        str ''6. Closing paragraph expressing interest'',
        str ''7. Professional sign-off'',
        [],
        str ''Make it:'',
        str ''- Specific to this job'',
        str ''- Confident but not arrogant'',
        str ''- 250-350 words'',
        str ''- Professional tone'']\<close>

record prompt =
  system :: pystr
  user :: pystr

definition analysis_prompts :: "pystr \<Rightarrow> pystr \<Rightarrow> (string \<times> prompt) list" where
  "analysis_prompts job_desc resume_text =
     [(''detailed'',
       \<lparr> system = detailed_system,
         user = detailed_user_head @ take 2000 job_desc @ detailed_user_middle @
                take 2000 resume_text @ detailed_user_tail \<rparr>),
      (''ats_score'',
       \<lparr> system = ats_score_system,
         user = ats_score_user_head @ take 1000 job_desc @ ats_score_user_middle @
                take 1000 resume_text @ ats_score_user_tail \<rparr>),
      (''cover_letter'',
       \<lparr> system = cover_letter_system,
         user = cover_letter_user_head @ job_desc @ cover_letter_user_middle @
                take 1500 resume_text @ cover_letter_user_tail \<rparr>)]"

section \<open>analyze\_with\_ai: the call and the interpretation of the response\<close>

text \<open>
  The client is not code of this repository: it is a parameter that maps the request to
  the content of the first choice of the response (a \<open>str\<close>), or to the exception raised
  on the way.
\<close>

record chat_request =
  model :: pystr
  messages :: "(string \<times> pystr) list"
  temperature :: rat
  max_tokens :: nat
  top_p :: nat

datatype ui_msg = StWarning pystr | StError pystr

text \<open>
  \<open>re.search(r'\{.*\}', result, re.DOTALL)\<close>: the leftmost match starts at the first
  opening brace; \<open>.*\<close> is greedy and with \<open>DOTALL\<close> crosses newlines, so the match ends at
  the last closing brace after it. There is no match when no closing brace follows the
  first opening brace.
\<close>

definition re_search_braces :: "pystr \<Rightarrow> pystr option" where
  "re_search_braces s =
     (case dropWhile (\<lambda>c. c \<noteq> 123) s of
        [] \<Rightarrow> None
      | b # after \<Rightarrow>
          (case dropWhile (\<lambda>c. c \<noteq> 125) (rev after) of
             [] \<Rightarrow> None
           | e # before \<Rightarrow> Some (b # rev (e # before))))"

text \<open>
  What the function returns: the raw text, or the value \<open>json.loads\<close> produced. The
  parser is a parameter \<open>loads\<close>, so the type of parsed values is one too.
  \<open>st.warning\<close> and \<open>st.error\<close> are collected as the list of messages shown.
\<close>

datatype 'j payload = Text pystr | Parsed 'j

text \<open>Lines 391 to 405: what becomes of the content of the response.\<close>

definition interpret_response ::
  "(pystr \<Rightarrow> exn + 'j) \<Rightarrow> string \<Rightarrow> pystr \<Rightarrow> 'j payload \<times> ui_msg list" where
  "interpret_response loads analysis_type result =
     (if analysis_type = ''ats_score''
      then (case re_search_braces result of
              None \<Rightarrow> (Text result, [])
            | Some json_match \<Rightarrow>
                (case loads json_match of
                   Inr parsed \<Rightarrow> (Parsed parsed, [])
                 | Inl e \<Rightarrow>
                     (Text result,
                      [StWarning (str ''Could not parse JSON: '' @ exn_str e)])))
      else (Text result, []))"

text \<open>
  The whole function: \<open>None\<close> is the \<open>return None\<close> of the outer handler, taken when the
  key is not in the dictionary or the client raises.
\<close>

definition analyze_with_ai ::
  "(chat_request \<Rightarrow> exn + pystr) \<Rightarrow> (pystr \<Rightarrow> exn + 'j) \<Rightarrow> pystr \<Rightarrow> pystr \<Rightarrow> pystr \<Rightarrow>
   string \<Rightarrow> 'j payload option \<times> ui_msg list" where
  "analyze_with_ai client loads model_id job_desc resume_text analysis_type =
     (case map_of (analysis_prompts job_desc resume_text) analysis_type of
        None \<Rightarrow>
          (None, [StError (str ''AI Analysis Error: '' @ exn_str (KeyError analysis_type))])
      | Some p \<Rightarrow>
          (case client \<lparr> model = model_id,
                         messages = [(''system'', system p), (''user'', user p)],
                         temperature = 7 / 10, max_tokens = 2048, top_p = 1 \<rparr> of
             Inl e \<Rightarrow> (None, [StError (str ''AI Analysis Error: '' @ exn_str e)])
           | Inr result \<Rightarrow>
               (case interpret_response loads analysis_type result of
                  (answer, shown) \<Rightarrow> (Some answer, shown))))"

section \<open>json.loads\<close>

text \<open>
  \<open>json.loads\<close> belongs to Python's standard library. The general statements below hold
  for any parser; for concrete inputs this is a model of the default decoder: JSON values
  as Python objects, with a number that has a fraction or an exponent (and \<open>NaN\<close>,
  \<open>Infinity\<close>, \<open>-Infinity\<close>) kept as its literal text instead of a float. Error messages
  are Python's without the position suffix. The interpreter's recursion limit and the
  limit on the digits of an integer are not modelled. An object is a Python \<open>dict\<close>: an
  association list in insertion order, a repeated key keeping its place and taking the
  later value.
\<close>

datatype json =
    JNull
  | JBool bool
  | JInt int
  | JFloat pystr
  | JStr pystr
  | JArr "json list"
  | JObj "(pystr \<times> json) list"

fun dict_set :: "('k \<times> 'v) list \<Rightarrow> 'k \<Rightarrow> 'v \<Rightarrow> ('k \<times> 'v) list" where
  "dict_set [] k v = [(k, v)]"
| "dict_set ((k', v') # d) k v = (if k' = k then (k, v) # d else (k', v') # dict_set d k v)"

definition dict_get :: "('k \<times> 'v) list \<Rightarrow> 'k \<Rightarrow> 'v \<Rightarrow> 'v" where
  "dict_get d k dflt = (case map_of d k of None \<Rightarrow> dflt | Some v \<Rightarrow> v)"

definition json_ws :: "nat \<Rightarrow> bool" where
  "json_ws c = (c = 32 \<or> c = 9 \<or> c = 10 \<or> c = 13)"

definition skip_ws :: "pystr \<Rightarrow> pystr" where
  "skip_ws s = dropWhile json_ws s"

definition starts_with :: "pystr \<Rightarrow> pystr \<Rightarrow> bool" where
  "starts_with p s = (take (length p) s = p)"

definition is_digit :: "nat \<Rightarrow> bool" where
  "is_digit c = (48 \<le> c \<and> c \<le> 57)"

definition hexval :: "nat \<Rightarrow> nat option" where
  "hexval c =
     (if 48 \<le> c \<and> c \<le> 57 then Some (c - 48)
      else if 97 \<le> c \<and> c \<le> 102 then Some (c - 87)
      else if 65 \<le> c \<and> c \<le> 70 then Some (c - 55)
      else None)"

definition decode_uXXXX :: "pystr \<Rightarrow> nat option" where
  "decode_uXXXX s =
     (case map hexval (take 4 s) of
        [Some a, Some b, Some c, Some d] \<Rightarrow> Some (((a * 16 + b) * 16 + c) * 16 + d)
      | _ \<Rightarrow> None)"

definition backslash :: "nat \<Rightarrow> nat option" where
  "backslash e =
     (if e = 34 then Some 34 else if e = 92 then Some 92 else if e = 47 then Some 47
      else if e = 98 then Some 8 else if e = 102 then Some 12 else if e = 110 then Some 10
      else if e = 114 then Some 13 else if e = 116 then Some 9 else None)"

text \<open>The body of a string, after the opening quote: the string and the rest of the input.\<close>

fun scanstring :: "nat \<Rightarrow> pystr \<Rightarrow> pystr \<Rightarrow> exn + (pystr \<times> pystr)" where
  "scanstring 0 acc s = Inl RecursionError"
| "scanstring (Suc n) acc [] = Inl (JSONDecodeError (str ''Unterminated string starting at''))"
| "scanstring (Suc n) acc (c # cs) =
     (if c = 34 then Inr (acc, cs)
      else if c = 92 then
        (case cs of
           [] \<Rightarrow> Inl (JSONDecodeError (str ''Unterminated string starting at''))
         | e # es \<Rightarrow>
             (if e = 117 then
                (case decode_uXXXX es of
                   None \<Rightarrow> Inl (JSONDecodeError (str ''Invalid '' @ [92] @ str ''uXXXX escape''))
                 | Some u \<Rightarrow>
                     (if 55296 \<le> u \<and> u \<le> 56319 \<and> starts_with [92, 117] (drop 4 es)
                      then (case decode_uXXXX (drop 6 es) of
                              None \<Rightarrow> Inl (JSONDecodeError (str ''Invalid '' @ [92] @ str ''uXXXX escape''))
                            | Some u2 \<Rightarrow>
                                (if 56320 \<le> u2 \<and> u2 \<le> 57343
                                 then scanstring n
                                        (acc @ [65536 + ((u - 55296) * 1024 + (u2 - 56320))])
                                        (drop 10 es)
                                 else scanstring n (acc @ [u]) (drop 4 es)))
                      else scanstring n (acc @ [u]) (drop 4 es)))
              else (case backslash e of
                      None \<Rightarrow> Inl (JSONDecodeError (str ''Invalid '' @ [92] @ str ''escape''))
                    | Some ch \<Rightarrow> scanstring n (acc @ [ch]) es)))
      else if c < 32 then Inl (JSONDecodeError (str ''Invalid control character at''))
      else scanstring n (acc @ [c]) cs)"

definition decimal :: "pystr \<Rightarrow> int" where
  "decimal ds = foldl (\<lambda>a c. 10 * a + (int c - 48)) 0 ds"

text \<open>
  The number pattern \<open>(-?(?:0|[1-9]\d*))(\.\d+)?([eE][-+]?\d+)?\<close> matched at the start of
  the input: the value and the rest.
\<close>

definition match_number :: "pystr \<Rightarrow> (json \<times> pystr) option" where
  "match_number s =
     (let sign = (if starts_with [45] s then [45] else []);
          s1 = drop (length sign) s
      in if s1 = [] \<or> \<not> is_digit (hd s1) then None
         else
           (let integer = (if hd s1 = 48 then [48] else takeWhile is_digit s1);
                s2 = drop (length integer) s1;
                frac = (if starts_with [46] s2 \<and> takeWhile is_digit (tl s2) \<noteq> []
                        then 46 # takeWhile is_digit (tl s2) else []);
                s3 = drop (length frac) s2;
                e = (if starts_with [101] s3 \<or> starts_with [69] s3 then [hd s3] else []);
                s4 = drop (length e) s3;
                esign = (if starts_with [43] s4 \<or> starts_with [45] s4 then [hd s4] else []);
                edigits = takeWhile is_digit (drop (length esign) s4);
                exponent = (if e \<noteq> [] \<and> edigits \<noteq> [] then e @ esign @ edigits else []);
                rest = drop (length exponent) s3
            in if frac = [] \<and> exponent = []
               then Some (JInt ((if sign = [] then 1 else - 1) * decimal integer), rest)
               else Some (JFloat (sign @ integer @ frac @ exponent), rest)))"

fun scan_once :: "nat \<Rightarrow> pystr \<Rightarrow> exn + (json \<times> pystr)"
  and JSONObject :: "nat \<Rightarrow> (pystr \<times> json) list \<Rightarrow> pystr \<Rightarrow> exn + (json \<times> pystr)"
  and JSONArray :: "nat \<Rightarrow> json list \<Rightarrow> pystr \<Rightarrow> exn + (json \<times> pystr)" where
  "scan_once 0 s = Inl RecursionError"
| "scan_once (Suc n) s =
     (if s = [] then Inl (JSONDecodeError (str ''Expecting value''))
      else if hd s = 34 then
        (case scanstring (length s) [] (tl s) of
           Inl e \<Rightarrow> Inl e
         | Inr (t, rest) \<Rightarrow> Inr (JStr t, rest))
      else if hd s = 123 then
        (if starts_with [125] (skip_ws (tl s)) then Inr (JObj [], tl (skip_ws (tl s)))
         else JSONObject n [] (skip_ws (tl s)))
      else if hd s = 91 then
        (if starts_with [93] (skip_ws (tl s)) then Inr (JArr [], tl (skip_ws (tl s)))
         else JSONArray n [] (skip_ws (tl s)))
      else if starts_with (str ''null'') s then Inr (JNull, drop 4 s)
      else if starts_with (str ''true'') s then Inr (JBool True, drop 4 s)
      else if starts_with (str ''false'') s then Inr (JBool False, drop 5 s)
      else (case match_number s of
              Some r \<Rightarrow> Inr r
            | None \<Rightarrow>
                (if starts_with (str ''NaN'') s then Inr (JFloat (str ''NaN''), drop 3 s)
                 else if starts_with (str ''Infinity'') s
                   then Inr (JFloat (str ''Infinity''), drop 8 s)
                 else if starts_with (str ''-Infinity'') s
                   then Inr (JFloat (str ''-Infinity''), drop 9 s)
                 else Inl (JSONDecodeError (str ''Expecting value'')))))"
| "JSONObject 0 pairs s = Inl RecursionError"
| "JSONObject (Suc n) pairs s =
     (if \<not> starts_with [34] s
      then Inl (JSONDecodeError (str ''Expecting property name enclosed in double quotes''))
      else
        (case scanstring (length s) [] (tl s) of
           Inl e \<Rightarrow> Inl e
         | Inr (key, s1) \<Rightarrow>
             (if \<not> starts_with [58] (skip_ws s1)
              then Inl (JSONDecodeError (str ''Expecting ':' delimiter''))
              else
                (case scan_once n (skip_ws (tl (skip_ws s1))) of
                   Inl e \<Rightarrow> Inl e
                 | Inr (v, s2) \<Rightarrow>
                     (if starts_with [125] (skip_ws s2)
                      then Inr (JObj (dict_set pairs key v), tl (skip_ws s2))
                      else if starts_with [44] (skip_ws s2)
                        then JSONObject n (dict_set pairs key v) (skip_ws (tl (skip_ws s2)))
                      else Inl (JSONDecodeError (str ''Expecting ',' delimiter'')))))))"
| "JSONArray 0 vals s = Inl RecursionError"
| "JSONArray (Suc n) vals s =
     (case scan_once n s of
        Inl e \<Rightarrow> Inl e
      | Inr (v, s1) \<Rightarrow>
          (if starts_with [93] (skip_ws s1) then Inr (JArr (vals @ [v]), tl (skip_ws s1))
           else if starts_with [44] (skip_ws s1)
             then JSONArray n (vals @ [v]) (skip_ws (tl (skip_ws s1)))
           else Inl (JSONDecodeError (str ''Expecting ',' delimiter''))))"

definition json_loads :: "pystr \<Rightarrow> exn + json" where
  "json_loads s =
     (case scan_once (2 * length s + 2) (skip_ws s) of
        Inl e \<Rightarrow> Inl e
      | Inr (v, rest) \<Rightarrow>
          (if skip_ws rest = [] then Inr v else Inl (JSONDecodeError (str ''Extra data''))))"

section \<open>The report of the structured score (spec wording)\<close>

text \<open>
  The invariant of the specification's StructuredScore, written after the specification
  and not after the code (the code has no such check): the overall score and the six
  sub-scores of the breakdown are integers from 0 to 100, an absent field counting as 0.
\<close>

definition breakdown_fields :: "pystr list" where
  "breakdown_fields =
     [str ''keyword_match'', str ''experience_match'', str ''skills_match'',
      str ''education_match'', str ''formatting'', str ''readability'']"

definition spec_score_in_range :: "json \<Rightarrow> bool" where
  "spec_score_in_range v = (case v of JInt n \<Rightarrow> 0 \<le> n \<and> n \<le> 100 | _ \<Rightarrow> False)"

definition spec_scores_in_range :: "json \<Rightarrow> bool" where
  "spec_scores_in_range v =
     (case v of
        JObj d \<Rightarrow>
          spec_score_in_range (dict_get d (str ''overall_score'') (JInt 0)) \<and>
          (case dict_get d (str ''breakdown'') (JObj []) of
             JObj b \<Rightarrow> list_all (\<lambda>k. spec_score_in_range (dict_get b k (JInt 0)))
                         breakdown_fields
           | _ \<Rightarrow> False)
      | _ \<Rightarrow> False)"

section \<open>The history and its statistics\<close>

text \<open>
  One entry of \<open>st.session_state.analysis_history\<close>: the dictionary \<open>analysis_data\<close> of
  lines 866 to 879. The key \<open>score\<close> exists only for an ATS analysis whose result is a
  dictionary.
\<close>

record analysis =
  a_type :: string
  a_model :: pystr
  a_timestamp :: pystr
  a_filename :: pystr
  a_job_desc_preview :: pystr
  a_result :: "json payload"
  a_score :: "json option"

definition analysis_data ::
  "string \<Rightarrow> pystr \<Rightarrow> pystr \<Rightarrow> pystr \<Rightarrow> pystr \<Rightarrow> json payload \<Rightarrow> analysis" where
  "analysis_data analysis_type selected_model_name now file_name job_desc result =
     \<lparr> a_type = analysis_type, a_model = selected_model_name, a_timestamp = now,
       a_filename = file_name, a_job_desc_preview = take 100 job_desc @ str ''...'',
       a_result = result,
       a_score = (case result of
                    Parsed (JObj d) \<Rightarrow>
                      (if analysis_type = ''ats_score''
                       then Some (dict_get d (str ''overall_score'') (JInt 0)) else None)
                  | _ \<Rightarrow> None) \<rparr>"

text \<open>
  Python floats, as far as the statistics need them: sign, mantissa and binary exponent of
  a finite double, \<open>PyFloat neg m e\<close> standing for \<open>\<plusminus> m * 2^e\<close>. \<open>int_truediv\<close> is \<open>a / b\<close>
  on Python integers, the quotient rounded correctly (to nearest, ties to even) to 53
  bits; formatting with \<open>.pf\<close> rounds the exact value of the double to \<open>p\<close> decimals, ties
  to even.
\<close>

datatype pyfloat = PyFloat bool nat int

fun bit_length :: "nat \<Rightarrow> nat" where
  "bit_length n = (if n = 0 then 0 else Suc (bit_length (n div 2)))"

declare bit_length.simps [simp del]

definition round_half_even :: "nat \<Rightarrow> nat \<Rightarrow> nat" where
  "round_half_even n d =
     (let q = n div d; r = n mod d
      in if 2 * r < d then q else if d < 2 * r then q + 1
         else if even q then q else q + 1)"

definition int_truediv :: "int \<Rightarrow> int \<Rightarrow> exn + pyfloat" where
  "int_truediv a b =
     (if b = 0 then Inl ZeroDivisionError
      else if a = 0 then Inr (PyFloat (b < 0) 0 0)
      else
        (let n = nat \<bar>a\<bar>; d = nat \<bar>b\<bar>;
             k = int (bit_length n) - int (bit_length d);
             e = (if d * 2 ^ nat k \<le> n * 2 ^ nat (- k) then k else k - 1);
             u = max (e - 52) (- 1074);
             m = round_half_even (n * 2 ^ nat (- u)) (d * 2 ^ nat u)
         in if 1024 < int (bit_length m) + u then Inl OverflowError
            else Inr (PyFloat ((a < 0) \<noteq> (b < 0)) m u)))"

definition str_int :: "int \<Rightarrow> pystr" where
  "str_int i = (if i < 0 then 45 # str_nat (nat (- i)) else str_nat (nat i))"

definition format_f :: "nat \<Rightarrow> pyfloat \<Rightarrow> pystr" where
  "format_f p x =
     (case x of
        PyFloat neg m e \<Rightarrow>
          (let scaled = round_half_even (m * 10 ^ p * 2 ^ nat e) (2 ^ nat (- e));
               whole = str_nat (scaled div 10 ^ p);
               frac = str_nat (scaled mod 10 ^ p)
           in (if neg then [45] else []) @ whole @
              (if p = 0 then [] else 46 # replicate (p - length frac) 48 @ frac)))"

text \<open>
  The statistics are modelled for integer scores, which is what the prompt asks the model
  for. \<open>int_scores\<close> is \<open>None\<close> when some score is not a JSON integer: such a history is
  outside this model, and nothing is stated about it.
\<close>

fun int_scores :: "json list \<Rightarrow> int list option" where
  "int_scores [] = Some []"
| "int_scores (JInt n # js) = (case int_scores js of None \<Rightarrow> None | Some ns \<Rightarrow> Some (n # ns))"
| "int_scores (j # js) = None"

fun max_score_of :: "int list \<Rightarrow> int" where
  "max_score_of [] = 0"
| "max_score_of (x # xs) = foldl max x xs"

fun min_score_of :: "int list \<Rightarrow> int" where
  "min_score_of [] = 0"
| "min_score_of (x # xs) = foldl min x xs"

text \<open>Tab 4, lines 1118 to 1169.\<close>

fun history_scores :: "analysis list \<Rightarrow> json list" where
  "history_scores [] = []"
| "history_scores (a # h) =
     (case a_result a of
        Parsed (JObj d) \<Rightarrow>
          (if a_type a = ''ats_score''
           then dict_get d (str ''overall_score'') (JInt 0) # history_scores h
           else history_scores h)
      | _ \<Rightarrow> history_scores h)"

record score_metrics =
  avg_score :: pyfloat
  average_score_metric :: pystr
  best_score_metric :: pystr
  lowest_score_metric :: pystr
  total_analyses_metric :: nat

datatype 'm view = Info pystr | Metrics 'm | Raised exn

definition visualize_tab :: "analysis list \<Rightarrow> score_metrics view option" where
  "visualize_tab history =
     (if history = []
      then Some (Info (str ''No analysis history yet. Run some analyses first!''))
      else if history_scores history = []
        then Some (Info (str ''No ATS Score analyses found in history.''))
      else
        (case int_scores (history_scores history) of
           None \<Rightarrow> None
         | Some scores \<Rightarrow>
             (case int_truediv (sum_list scores) (int (length scores)) of
                Inl e \<Rightarrow> Some (Raised e)
              | Inr avg \<Rightarrow>
                  Some (Metrics
                    \<lparr> avg_score = avg,
                      average_score_metric = format_f 1 avg @ str ''%'',
                      best_score_metric = str_int (max_score_of scores) @ str ''%'',
                      lowest_score_metric = str_int (min_score_of scores) @ str ''%'',
                      total_analyses_metric = length scores \<rparr>))))"

text \<open>The sidebar, lines 586 to 596: the sum of the scores over the number of all entries.\<close>

fun sidebar_scores :: "analysis list \<Rightarrow> json list" where
  "sidebar_scores [] = []"
| "sidebar_scores (a # h) =
     (case a_score a of None \<Rightarrow> sidebar_scores h | Some s \<Rightarrow> s # sidebar_scores h)"

record quick_stats =
  total_analyses :: nat
  avg_score_metric :: pystr

definition render_sidebar_stats :: "analysis list \<Rightarrow> quick_stats view option" where
  "render_sidebar_stats history =
     (if history = [] then Some (Info (str ''No analyses yet''))
      else
        (case int_scores (sidebar_scores history) of
           None \<Rightarrow> None
         | Some scores \<Rightarrow>
             (case int_truediv (sum_list scores) (int (max 1 (length history))) of
                Inl e \<Rightarrow> Some (Raised e)
              | Inr avg \<Rightarrow>
                  Some (Metrics \<lparr> total_analyses = length history,
                                  avg_score_metric = format_f 1 avg @ str ''%'' \<rparr>))))"

text \<open>The history of the scenario: three ATS analyses and, between them, a detailed one.\<close>

definition scored :: "int \<Rightarrow> analysis" where
  "scored n =
     analysis_data ''ats_score'' (str ''Llama 3.1 8B'') (str ''2026-01-05 10:00:00'')
       (str ''jane.pdf'') (str ''Python developer'')
       (Parsed (JObj [(str ''overall_score'', JInt n)]))"

definition detailed_entry :: analysis where
  "detailed_entry =
     analysis_data ''detailed'' (str ''Llama 3.1 8B'') (str ''2026-01-05 10:05:00'')
       (str ''jane.pdf'') (str ''Python developer'') (Text (str ''# Report''))"

section \<open>Extraction: the stages under the module's own globals\<close>

lemma app_globals_unbound:
  "g_pdfplumber (app_globals L) = None"
  "g_fitz (app_globals L) = None"
  "g_PyPDF2 (app_globals L) = None"
  by (simp_all add: app_globals_def bind_def module_imports_def module_definitions_def)

lemma strip_Nil: "strip [] = []"
  by (simp add: strip_def)

lemma stages_unbound:
  "method1 (app_globals L) files p text = (Some (NameError ''pdfplumber''), text)"
  "method2 (app_globals L) files p text = (Some (NameError ''fitz''), text)"
  "method3 (app_globals L) uploaded text = (Some (NameError ''PyPDF2''), text)"
  by (simp_all add: method1_def method2_def method3_def app_globals_unbound)

lemma cascade_unbound:
  "cascade (app_globals L) files p uploaded =
     \<lparr> text_after1 = [], text_after2 = [], text_after3 = [], attempted = [1, 2, 3] \<rparr>"
  by (simp add: cascade_def stages_unbound strip_Nil)

lemma returned_unbound:
  "returned (extract_text_from_pdf (app_globals L) os files uploaded) =
     (case create_fault os of Some m \<Rightarrow> extract_error (OSError m)
      | None \<Rightarrow> (case write_fault os of Some m \<Rightarrow> extract_error (OSError m)
      | None \<Rightarrow> (case unlink_fault os of Some m \<Rightarrow> extract_error (OSError m)
      | None \<Rightarrow> no_text_warning)))"
  by (simp add: extract_text_from_pdf_def cascade_unbound strip_Nil Let_def
      split: option.splits)

lemma run_unbound:
  "run (extract_text_from_pdf (app_globals L) os files uploaded) =
     (if create_fault os = None \<and> write_fault os = None
      then Some \<lparr> text_after1 = [], text_after2 = [], text_after3 = [],
                   attempted = [1, 2, 3] \<rparr>
      else None)"
  by (simp add: extract_text_from_pdf_def cascade_unbound Let_def split: option.splits)

lemma jane_text_nonempty: "jane_text \<noteq> []" "jane_page2 \<noteq> []"
  by (simp_all add: jane_text_def jane_page2_def str_def)

lemma jane_repaired_method1:
  "method1 (bind (''pdfplumber'' # module_imports) jane_libs)
     (m(p \<mapsto> jane_pdf)) p [] =
   (None, jane_pages_text)"
  by (simp add: method1_def bind_def open_path_def jane_libs_def truthy_def
      jane_text_nonempty jane_pages_text_def)

lemma jane_strip_length:
  "length (strip jane_pages_text) = 101"
  by (simp add: jane_pages_text_def jane_text_def jane_page2_def str_def strip_def
      is_space_def)

lemma jane_repaired_returned:
  "returned (extract_text_from_pdf (bind (''pdfplumber'' # module_imports) jane_libs)
               quiet_os Map.empty jane_upload) =
     take 5000 jane_pages_text"
  by (simp add: extract_text_from_pdf_def cascade_def Let_def quiet_os_def jane_upload_def
      jane_repaired_method1 jane_strip_length)

text \<open>
  C2. Under the module's own global names, for every behaviour of the three libraries,
  every state of the operating system and every uploaded buffer: each stage ends in
  \<open>NameError\<close> with the text unchanged, the accumulated text is empty whenever the cascade
  is reached, and the function returns the fixed warning or an \<open>Error extracting PDF\<close>
  string built from an operating-system error; the returned string is the same for any two
  behaviours of the libraries, so it carries no document text.
\<close>

theorem extract_returns_warning_or_error:
  "method1 (app_globals L) files p text = (Some (NameError ''pdfplumber''), text) \<and>
   method2 (app_globals L) files p text = (Some (NameError ''fitz''), text) \<and>
   method3 (app_globals L) uploaded text = (Some (NameError ''PyPDF2''), text) \<and>
   run (extract_text_from_pdf (app_globals L) os files uploaded) \<in>
     {None, Some \<lparr> text_after1 = [], text_after2 = [], text_after3 = [],
                    attempted = [1, 2, 3] \<rparr>} \<and>
   (returned (extract_text_from_pdf (app_globals L) os files uploaded) = no_text_warning \<or>
    (\<exists>m. returned (extract_text_from_pdf (app_globals L) os files uploaded) =
          str ''Error extracting PDF: '' @ m)) \<and>
   returned (extract_text_from_pdf (app_globals L) os files uploaded) =
     returned (extract_text_from_pdf (app_globals L') os files uploaded)"
proof -
  have "returned (extract_text_from_pdf (app_globals L) os files uploaded) = no_text_warning \<or>
    (\<exists>m. returned (extract_text_from_pdf (app_globals L) os files uploaded) =
          str ''Error extracting PDF: '' @ m)"
    by (auto simp add: returned_unbound extract_error_def split: option.splits)
  then show ?thesis
    by (simp add: stages_unbound run_unbound returned_unbound)
qed

text \<open>
  C1, evaluated at a failing input. The upload is a two-page PDF whose first page alone
  has more than 50 non-whitespace characters. With the module's globals the function
  returns the warning; the same code with \<open>pdfplumber\<close> bound returns the text of the two
  pages.
\<close>

theorem extract_valid_pdf_gives_warning:
  "50 \<le> count_non_whitespace jane_text \<and>
   pdfplumber_open jane_libs (getvalue jane_upload) =
     Inr [\<lparr> extract_text = Inr (Some jane_text), extract_tables = Inr [] \<rparr>,
          \<lparr> extract_text = Inr (Some jane_page2), extract_tables = Inr [] \<rparr>] \<and>
   returned (extract_text_from_pdf (app_globals jane_libs) quiet_os Map.empty jane_upload) =
     no_text_warning \<and>
   returned (extract_text_from_pdf (bind (''pdfplumber'' # module_imports) jane_libs)
               quiet_os Map.empty jane_upload) =
     jane_pages_text"
proof -
  have a: "50 \<le> count_non_whitespace jane_text"
    by (simp add: count_non_whitespace_def jane_text_def str_def is_space_def)
  have b: "pdfplumber_open jane_libs (getvalue jane_upload) =
     Inr [\<lparr> extract_text = Inr (Some jane_text), extract_tables = Inr [] \<rparr>,
          \<lparr> extract_text = Inr (Some jane_page2), extract_tables = Inr [] \<rparr>]"
    by (simp add: jane_libs_def jane_upload_def)
  have c: "returned (extract_text_from_pdf (app_globals jane_libs) quiet_os Map.empty
             jane_upload) = no_text_warning"
    by (simp add: returned_unbound quiet_os_def)
  have len: "length jane_pages_text \<le> 5000"
    by (simp add: jane_pages_text_def jane_text_def jane_page2_def str_def)
  have d: "returned (extract_text_from_pdf (bind (''pdfplumber'' # module_imports) jane_libs)
               quiet_os Map.empty jane_upload) =
     jane_pages_text"
    by (simp only: jane_repaired_returned take_all [OF len])
  from a b c d show ?thesis by simp
qed

lemma cascade_guard_general:
  "(2 \<in> set (attempted (cascade G files p uploaded))) =
     (length (strip (text_after1 (cascade G files p uploaded))) < 100)"
  "(3 \<in> set (attempted (cascade G files p uploaded))) =
     (length (strip (text_after2 (cascade G files p uploaded))) < 100)"
  by (simp_all add: cascade_def Let_def)

text \<open>
  The measure of the guards is the length of the stripped text, which counts the whitespace
  inside it. It is never below the number of non-whitespace characters, and with the
  libraries bound it can pass 100 while that number stays below 100: then the later stages
  are skipped.
\<close>

lemma filter_dropWhile_space:
  "filter (\<lambda>c. \<not> is_space c) (dropWhile is_space s) = filter (\<lambda>c. \<not> is_space c) s"
  by (induction s) auto

lemma count_non_whitespace_le_stripped: "count_non_whitespace s \<le> length (strip s)"
proof -
  have "filter (\<lambda>c. \<not> is_space c) (strip s) = filter (\<lambda>c. \<not> is_space c) s"
    unfolding strip_def
    by (simp only: rev_filter [symmetric] filter_dropWhile_space rev_rev_ident)
  then have "count_non_whitespace s = length (filter (\<lambda>c. \<not> is_space c) (strip s))"
    by (simp add: count_non_whitespace_def)
  then show ?thesis
    by simp
qed

lemma attempted_only_if_few_non_whitespace:
  "2 \<in> set (attempted (cascade G files p uploaded)) \<Longrightarrow>
     count_non_whitespace (text_after1 (cascade G files p uploaded)) < 100"
  using count_non_whitespace_le_stripped [of "text_after1 (cascade G files p uploaded)"]
  by (simp add: cascade_guard_general)

lemma columns_text_measures:
  "count_non_whitespace (columns_text @ [10, 10]) = 28"
  "length (strip (columns_text @ [10, 10])) = 110"
  by (simp_all add: count_non_whitespace_def strip_def columns_text_def str_def is_space_def)

lemma guard_counts_inner_whitespace:
  "text_after1 (cascade (bind [''pdfplumber'', ''fitz'', ''PyPDF2''] columns_libs)
                  (m(p \<mapsto> b)) p uploaded) = columns_text @ [10, 10] \<and>
   attempted (cascade (bind [''pdfplumber'', ''fitz'', ''PyPDF2''] columns_libs)
                (m(p \<mapsto> b)) p uploaded) = [1]"
proof -
  have ne: "columns_text \<noteq> []"
    by (simp add: columns_text_def str_def)
  have m1: "method1 (bind [''pdfplumber'', ''fitz'', ''PyPDF2''] columns_libs)
              (m(p \<mapsto> b)) p [] = (None, columns_text @ [10, 10])"
    by (simp add: method1_def bind_def open_path_def columns_libs_def truthy_def ne)
  show ?thesis
    by (simp add: cascade_def Let_def m1 columns_text_measures)
qed





lemma pages_unbound: "pages (get_file_stats (app_globals L) uploaded) = 0"
  by (simp add: get_file_stats_def plumber_page_count_def fitz_page_count_def
      app_globals_unbound)

text \<open>
  C7, evaluated at a failing input. For every upload the size is the length of the buffer
  over \<open>1024 * 1024\<close>, and under the module's globals the page count is 0, because both
  page-count strategies end in \<open>NameError\<close>. So for the two-page upload the function
  reports a positive size and 0 pages; the same code with \<open>pdfplumber\<close> bound reports 2
  pages.
\<close>

theorem file_stats_two_page_pdf_reports_zero:
  "size_mb (get_file_stats G uploaded) =
     of_nat (length (getvalue uploaded)) / (1024 * 1024) \<and>
   pages (get_file_stats (app_globals L) uploaded) = 0 \<and>
   plumber_page_count (app_globals L) (getvalue uploaded) = Inl (NameError ''pdfplumber'') \<and>
   fitz_page_count (app_globals L) (getvalue uploaded) = Inl (NameError ''fitz'') \<and>
   map_sum id length (pdfplumber_open jane_libs (getvalue jane_upload)) = Inr 2 \<and>
   0 < size_mb (get_file_stats (app_globals jane_libs) jane_upload) \<and>
   pages (get_file_stats (app_globals jane_libs) jane_upload) = 0 \<and>
   pages (get_file_stats (bind (''pdfplumber'' # module_imports) jane_libs) jane_upload) = 2"
proof -
  have size: "size_mb (get_file_stats G uploaded) =
     of_nat (length (getvalue uploaded)) / (1024 * 1024)"
    by (simp add: get_file_stats_def Let_def split: sum.splits)
  have unbound: "plumber_page_count (app_globals L) (getvalue uploaded) =
      Inl (NameError ''pdfplumber'')"
    "fitz_page_count (app_globals L) (getvalue uploaded) = Inl (NameError ''fitz'')"
    by (simp_all add: plumber_page_count_def fitz_page_count_def app_globals_unbound)
  have jane: "map_sum id length (pdfplumber_open jane_libs (getvalue jane_upload)) = Inr 2"
    "0 < size_mb (get_file_stats (app_globals jane_libs) jane_upload)"
    "pages (get_file_stats (bind (''pdfplumber'' # module_imports) jane_libs) jane_upload) = 2"
    by (simp_all add: get_file_stats_def plumber_page_count_def fitz_page_count_def
        app_globals_unbound bind_def jane_libs_def jane_upload_def jane_pdf_def)
  show ?thesis
    using size unbound jane by (simp add: pages_unbound)
qed

section \<open>The prompts\<close>

lemma detailed_lengths:
  "length detailed_user_head = 69" "length detailed_user_middle = 21"
  "length detailed_user_tail = 1252"
  by (simp_all add: detailed_user_head_def detailed_user_middle_def detailed_user_tail_def
      str_def)

lemma ats_score_lengths:
  "length ats_score_user_head = 66" "length ats_score_user_middle = 18"
  "length ats_score_user_tail = 935"
  by (simp_all add: ats_score_user_head_def ats_score_user_middle_def
      ats_score_user_tail_def str_def)

lemma cover_letter_lengths:
  "length cover_letter_user_head = 62" "length cover_letter_user_middle = 18"
  "length cover_letter_user_tail = 388"
  by (simp_all add: cover_letter_user_head_def cover_letter_user_middle_def
      cover_letter_user_tail_def str_def)

text \<open>
  C6. The prompt pair is a function of the mode, the job description and the resume text
  alone. For each mode the system prompt is fixed and the user prompt is the fixed text
  around the copies: the first 2000 and 2000 characters for \<open>detailed\<close>, the first 1000 and
  1000 for \<open>ats_score\<close>, the whole job description and the first 1500 characters of the
  resume for \<open>cover_letter\<close>. Two consequences are stated with it: the length of each user
  prompt, and that the prompt of the inputs is the prompt of the truncated inputs.
\<close>

theorem prompts_truncate_per_mode:
  "map_of (analysis_prompts jd r) ''detailed'' =
     Some \<lparr> system = detailed_system,
            user = detailed_user_head @ take 2000 jd @ detailed_user_middle @
                   take 2000 r @ detailed_user_tail \<rparr> \<and>
   map_of (analysis_prompts jd r) ''ats_score'' =
     Some \<lparr> system = ats_score_system,
            user = ats_score_user_head @ take 1000 jd @ ats_score_user_middle @
                   take 1000 r @ ats_score_user_tail \<rparr> \<and>
   map_of (analysis_prompts jd r) ''cover_letter'' =
     Some \<lparr> system = cover_letter_system,
            user = cover_letter_user_head @ jd @ cover_letter_user_middle @
                   take 1500 r @ cover_letter_user_tail \<rparr> \<and>
   map (length \<circ> user \<circ> snd) (analysis_prompts jd r) =
     [1342 + min (length jd) 2000 + min (length r) 2000,
      1019 + min (length jd) 1000 + min (length r) 1000,
      468 + length jd + min (length r) 1500] \<and>
   map_of (analysis_prompts jd r) ''detailed'' =
     map_of (analysis_prompts (take 2000 jd) (take 2000 r)) ''detailed'' \<and>
   map_of (analysis_prompts jd r) ''ats_score'' =
     map_of (analysis_prompts (take 1000 jd) (take 1000 r)) ''ats_score'' \<and>
   map_of (analysis_prompts jd r) ''cover_letter'' =
     map_of (analysis_prompts jd (take 1500 r)) ''cover_letter''"
  by (simp add: analysis_prompts_def detailed_lengths ats_score_lengths cover_letter_lengths)

section \<open>The interpretation of the response\<close>


lemma analyze_with_ai_ats_score:
  "analyze_with_ai (\<lambda>request. Inr raw) loads model_id jd r ''ats_score'' =
     (Some (fst (interpret_response loads ''ats_score'' raw)),
      snd (interpret_response loads ''ats_score'' raw))"
  by (simp add: analyze_with_ai_def analysis_prompts_def split: prod.splits)

lemma loads_overall_72:
  \<open>json_loads (str ''{"overall_score": 72}'') = Inr (JObj [(str ''overall_score'', JInt 72)])\<close>
  by code_simp






text \<open>
  C5. In ATS mode, when the response has no opening brace followed by a closing brace, or
  when the parser raises on the matched text, the interpretation returns the raw text
  unchanged, and \<open>analyze_with_ai\<close> returns it (not the \<open>None\<close> of its error handler) when
  the client answers with that response.
\<close>

theorem malformed_or_absent_json_returns_raw:
  assumes "re_search_braces raw = None \<or>
           (\<exists>matched e. re_search_braces raw = Some matched \<and> loads matched = Inl e)"
  shows "fst (interpret_response loads ''ats_score'' raw) = Text raw \<and>
         fst (analyze_with_ai (\<lambda>request. Inr raw) loads model_id jd r ''ats_score'') =
           Some (Text raw)"
proof -
  have "fst (interpret_response loads ''ats_score'' raw) = Text raw"
    using assms by (auto simp add: interpret_response_def)
  then show ?thesis
    by (simp add: analyze_with_ai_ats_score)
qed

lemma search_no_json: "re_search_braces (str ''I cannot score this resume.'') = None"
  by code_simp

lemma search_trailing_comma:
  \<open>re_search_braces (str ''Result: {"overall_score": 72,}'') =
     Some (str ''{"overall_score": 72,}'')\<close>
  by code_simp

lemma loads_trailing_comma:
  \<open>json_loads (str ''{"overall_score": 72,}'') =
     Inl (JSONDecodeError (str ''Expecting property name enclosed in double quotes''))\<close>
  by code_simp

theorem malformed_or_absent_json_returns_raw_witness:
  \<open>re_search_braces (str ''I cannot score this resume.'') = None \<and>
   fst (interpret_response json_loads ''ats_score'' (str ''I cannot score this resume.'')) =
     Text (str ''I cannot score this resume.'') \<and>
   re_search_braces (str ''Result: {"overall_score": 72,}'') =
     Some (str ''{"overall_score": 72,}'') \<and>
   json_loads (str ''{"overall_score": 72,}'') =
     Inl (JSONDecodeError (str ''Expecting property name enclosed in double quotes'')) \<and>
   fst (interpret_response json_loads ''ats_score'' (str ''Result: {"overall_score": 72,}'')) =
     Text (str ''Result: {"overall_score": 72,}'')\<close>
proof -
  have a: \<open>re_search_braces (str ''I cannot score this resume.'') = None \<or>
      (\<exists>matched e. re_search_braces (str ''I cannot score this resume.'') = Some matched \<and>
         json_loads matched = Inl e)\<close>
    by (simp add: search_no_json)
  have b: \<open>re_search_braces (str ''Result: {"overall_score": 72,}'') = None \<or>
      (\<exists>matched e. re_search_braces (str ''Result: {"overall_score": 72,}'') = Some matched \<and>
         json_loads matched = Inl e)\<close>
    by (simp add: search_trailing_comma loads_trailing_comma)
  show ?thesis
    using malformed_or_absent_json_returns_raw [OF a]
      malformed_or_absent_json_returns_raw [OF b]
    by (simp add: search_no_json search_trailing_comma loads_trailing_comma)
qed

lemma search_overall_150:
  \<open>re_search_braces (str ''{"overall_score": 150, "breakdown": {"keyword_match": 120}}'') =
     Some (str ''{"overall_score": 150, "breakdown": {"keyword_match": 120}}'')\<close>
  by code_simp

lemma loads_overall_150:
  \<open>json_loads (str ''{"overall_score": 150, "breakdown": {"keyword_match": 120}}'') =
     Inr (JObj [(str ''overall_score'', JInt 150),
                (str ''breakdown'', JObj [(str ''keyword_match'', JInt 120)])])\<close>
  by code_simp

text \<open>
  C9 as stated fails: the interpretation returns what the parser produced, and a response
  whose JSON has an overall score of 150 yields a payload with that score.
\<close>

theorem interpret_keeps_out_of_range_score:
  \<open>interpret_response json_loads ''ats_score''
     (str ''{"overall_score": 150, "breakdown": {"keyword_match": 120}}'') =
   (Parsed (JObj [(str ''overall_score'', JInt 150),
                  (str ''breakdown'', JObj [(str ''keyword_match'', JInt 120)])]), []) \<and>
   \<not> spec_scores_in_range
       (JObj [(str ''overall_score'', JInt 150),
              (str ''breakdown'', JObj [(str ''keyword_match'', JInt 120)])])\<close>
  by (simp add: interpret_response_def search_overall_150 loads_overall_150
      spec_scores_in_range_def spec_score_in_range_def dict_get_def)

text \<open>
  C9, amended. A parsed payload of the interpretation in ATS mode is exactly the value the
  parser returned for the text from the first opening brace to the last closing brace of
  the response, with no warning shown; nothing checks or clamps its scores, so they are in
  the range 0 to 100 exactly when those of the parsed JSON are.
\<close>

theorem structured_payload_is_parser_output:
  assumes "fst (interpret_response loads ''ats_score'' raw) = Parsed v"
  shows "\<exists>matched. re_search_braces raw = Some matched \<and> loads matched = Inr v \<and>
           interpret_response loads ''ats_score'' raw = (Parsed v, [])"
  using assms
  by (auto simp add: interpret_response_def split: option.splits sum.splits)

theorem structured_payload_is_parser_output_witness:
  \<open>fst (interpret_response json_loads ''ats_score'' (str ''Score: {"overall_score": 72}'')) =
     Parsed (JObj [(str ''overall_score'', JInt 72)]) \<and>
   (\<exists>matched. re_search_braces (str ''Score: {"overall_score": 72}'') = Some matched \<and>
      json_loads matched = Inr (JObj [(str ''overall_score'', JInt 72)]))\<close>
proof -
  have m: \<open>re_search_braces (str ''Score: {"overall_score": 72}'') =
           Some (str ''{"overall_score": 72}'')\<close>
    by code_simp
  have h: \<open>fst (interpret_response json_loads ''ats_score''
             (str ''Score: {"overall_score": 72}'')) =
           Parsed (JObj [(str ''overall_score'', JInt 72)])\<close>
    by (simp add: interpret_response_def m loads_overall_72)
  show ?thesis
    using h structured_payload_is_parser_output [OF h] by blast
qed

section \<open>The statistics of the history\<close>

lemma truediv_215_3: "int_truediv 215 3 = Inr (PyFloat False 5043093332732587 (- 46))"
proof -
  have b: "bit_length 215 = 8" "bit_length 3 = 2" "bit_length 5043093332732587 = 53"
    by (simp_all add: bit_length.simps)
  show ?thesis
    unfolding int_truediv_def by (simp add: b round_half_even_def Let_def)
qed

lemma round_average:
  "round_half_even (5043093332732587 * 10 ^ 2 * 2 ^ nat (- 46)) (2 ^ nat (- (- 46))) = 7167"
  by (simp add: round_half_even_def Let_def)

lemma digits_average:
  "str_nat 71 = str ''71''" "str_nat 67 = str ''67''"
  "7167 div 10 ^ 2 = (71::nat)" "7167 mod 10 ^ 2 = (67::nat)"
  by (simp_all add: str_nat_def digits_acc.simps str_def)

lemma format_average_2:
  "format_f 2 (PyFloat False 5043093332732587 (- 46)) = str ''71.67''"
  unfolding format_f_def pyfloat.case Let_def round_average digits_average
  by (simp add: str_def)

lemma format_average_1:
  "format_f 1 (PyFloat False 5043093332732587 (- 46)) = str ''71.7''"
  by (simp add: format_f_def round_half_even_def Let_def str_nat_def digits_acc.simps str_def)

lemma format_average_Suc:
  "format_f (Suc 0) (PyFloat False 5043093332732587 (- 46)) = str ''71.7''"
  using format_average_1 by simp

lemma str_int_scores: "str_int 90 = str ''90''" "str_int 55 = str ''55''"
  by (simp_all add: str_int_def str_nat_def digits_acc.simps str_def)

text \<open>
  C10. For every history whose ATS entries carry the scores 55, 70 and 90 in this order,
  tab 4 computes the average as the double nearest to 215/3, which prints as 71.67 with
  two decimals and is shown as \<open>71.7%\<close>, the best score \<open>90%\<close>, the lowest \<open>55%\<close> and 3
  analyses. The sidebar shows the same average, \<open>71.7%\<close>, for a history that consists of
  three entries with these scores.
\<close>

theorem history_statistics_55_70_90:
  assumes "history_scores h = [JInt 55, JInt 70, JInt 90]"
    and "map a_score h' = [Some (JInt 55), Some (JInt 70), Some (JInt 90)]"
  shows "visualize_tab h =
           Some (Metrics \<lparr> avg_score = PyFloat False 5043093332732587 (- 46),
                           average_score_metric = str ''71.7%'',
                           best_score_metric = str ''90%'',
                           lowest_score_metric = str ''55%'',
                           total_analyses_metric = 3 \<rparr>) \<and>
         format_f 2 (PyFloat False 5043093332732587 (- 46)) = str ''71.67'' \<and>
         render_sidebar_stats h' =
           Some (Metrics \<lparr> total_analyses = 3, avg_score_metric = str ''71.7%'' \<rparr>)"
proof -
  have ne: "h \<noteq> []"
    using assms(1) by auto
  have v: "visualize_tab h =
           Some (Metrics \<lparr> avg_score = PyFloat False 5043093332732587 (- 46),
                           average_score_metric = str ''71.7%'',
                           best_score_metric = str ''90%'',
                           lowest_score_metric = str ''55%'',
                           total_analyses_metric = 3 \<rparr>)"
    unfolding visualize_tab_def
    by (simp add: ne assms(1) truediv_215_3 format_average_Suc str_int_scores str_def)
  obtain a b c where h': "h' = [a, b, c]"
    using assms(2) by (auto simp add: map_eq_Cons_conv)
  have s: "render_sidebar_stats h' =
           Some (Metrics \<lparr> total_analyses = 3, avg_score_metric = str ''71.7%'' \<rparr>)"
    using assms(2) unfolding render_sidebar_stats_def h'
    by (simp add: truediv_215_3 format_average_Suc str_def)
  show ?thesis
    using v s by (simp add: format_average_2)
qed

theorem history_statistics_55_70_90_witness:
  "history_scores [scored 55, detailed_entry, scored 70, scored 90] =
     [JInt 55, JInt 70, JInt 90] \<and>
   map a_score [scored 55, scored 70, scored 90] =
     [Some (JInt 55), Some (JInt 70), Some (JInt 90)] \<and>
   visualize_tab [scored 55, detailed_entry, scored 70, scored 90] =
     Some (Metrics \<lparr> avg_score = PyFloat False 5043093332732587 (- 46),
                     average_score_metric = str ''71.7%'',
                     best_score_metric = str ''90%'',
                     lowest_score_metric = str ''55%'',
                     total_analyses_metric = 3 \<rparr>) \<and>
   render_sidebar_stats [scored 55, scored 70, scored 90] =
     Some (Metrics \<lparr> total_analyses = 3, avg_score_metric = str ''71.7%'' \<rparr>)"
proof -
  have a: "history_scores [scored 55, detailed_entry, scored 70, scored 90] =
     [JInt 55, JInt 70, JInt 90]"
    by (simp add: scored_def detailed_entry_def analysis_data_def dict_get_def)
  have b: "map a_score [scored 55, scored 70, scored 90] =
     [Some (JInt 55), Some (JInt 70), Some (JInt 90)]"
    by (simp add: scored_def analysis_data_def dict_get_def)
  show ?thesis
    using a b history_statistics_55_70_90 [OF a b] by simp
qed

text \<open>
  The sidebar divides the sum of the scores by the number of all entries of the history,
  scored or not: with a detailed analysis among the three scored ones it shows 53.8%.
\<close>

lemma truediv_215_4: "int_truediv 215 4 = Inr (PyFloat False 7564639999098880 (- 47))"
proof -
  have b: "bit_length 215 = 8" "bit_length 4 = 3" "bit_length 7564639999098880 = 53"
    by (simp_all add: bit_length.simps)
  show ?thesis
    unfolding int_truediv_def by (simp add: b round_half_even_def Let_def)
qed

lemma format_sidebar_average:
  "format_f (Suc 0) (PyFloat False 7564639999098880 (- 47)) = str ''53.8''"
  by (simp add: format_f_def round_half_even_def Let_def str_nat_def digits_acc.simps str_def)

lemma sidebar_average_counts_all_entries:
  "render_sidebar_stats [scored 55, detailed_entry, scored 70, scored 90] =
     Some (Metrics \<lparr> total_analyses = 4, avg_score_metric = str ''53.8%'' \<rparr>)"
  unfolding render_sidebar_stats_def
  by (simp add: scored_def detailed_entry_def analysis_data_def dict_get_def truediv_215_4
      format_sidebar_average str_def)

end
